theory Spec2Isabelle
  imports Main "HOL-Library.AList"
begin

section \<open>Python values used by app.py\<close>

text \<open>
  A Python \<open>str\<close> is modelled as a \<open>string\<close>: a list of characters, each character a code
  point below 256. On these code points \<open>str.isspace\<close> holds for 9..13, 28..32, 133 and 160,
  and the only decimal digits are \<open>0\<close>..\<open>9\<close>. Python integers are unbounded, so they are
  \<open>int\<close>. A \<open>dict\<close> keeps its keys in insertion order; it is an association list with
  distinct keys, read with \<open>map_of\<close> and written with \<open>AList.update\<close> (which replaces the
  value of a present key in place and appends an absent key at the end, as assignment to
  \<open>d[k]\<close> does).
\<close>

datatype error = ValueError | IndexError | OverflowError | RetryError | UnicodeDecodeError

subsection \<open>String methods\<close>

text \<open>\<open>s.startswith(p)\<close>\<close>

fun startswith :: "string \<Rightarrow> string \<Rightarrow> bool" where
  "startswith s [] = True"
| "startswith [] (p # ps) = False"
| "startswith (c # cs) (p # ps) = (c = p \<and> startswith cs ps)"

text \<open>\<open>sub in s\<close>\<close>

fun py_in :: "string \<Rightarrow> string \<Rightarrow> bool" where
  "py_in sub [] = (sub = [])"
| "py_in sub (c # cs) = (startswith (c # cs) sub \<or> py_in sub cs)"

definition isspace :: "char \<Rightarrow> bool" where
  "isspace c = (c \<in> {CHR 0x09, CHR 0x0A, CHR 0x0B, CHR 0x0C, CHR 0x0D,
                       CHR 0x1C, CHR 0x1D, CHR 0x1E, CHR 0x1F, CHR 0x20, CHR 0x85, CHR 0xA0})"

text \<open>\<open>s.strip()\<close>\<close>

definition py_strip :: "string \<Rightarrow> string" where
  "py_strip s = rev (dropWhile isspace (rev (dropWhile isspace s)))"

text \<open>
  \<open>s.split(sep)\<close> for a non-empty separator: the pieces between the occurrences of \<open>sep\<close>,
  found from the left without overlap. app.py only passes non-empty literals; for the empty
  separator Python raises, and this function then returns the text unsplit.
\<close>

function py_split :: "string \<Rightarrow> string \<Rightarrow> string list" where
  "py_split sep [] = [[]]"
| "py_split sep (c # cs) =
     (if sep \<noteq> [] \<and> startswith (c # cs) sep
      then [] # py_split sep (drop (length sep) (c # cs))
      else (case py_split sep cs of [] \<Rightarrow> [[c]] | p # ps \<Rightarrow> (c # p) # ps))"
  by pat_completeness auto
termination
  by (relation "measure (\<lambda>(sep, s). length s)") auto

text \<open>\<open>s.split(sep, 1)\<close>: at most one split, at the leftmost occurrence.\<close>

fun py_split1 :: "string \<Rightarrow> string \<Rightarrow> string list" where
  "py_split1 sep [] = [[]]"
| "py_split1 sep (c # cs) =
     (if sep \<noteq> [] \<and> startswith (c # cs) sep
      then [[], drop (length sep) (c # cs)]
      else (case py_split1 sep cs of [] \<Rightarrow> [[c]] | p # ps \<Rightarrow> (c # p) # ps))"

text \<open>\<open>s.replace(old, new)\<close>: every occurrence, from the left, without overlap.\<close>

function py_replace :: "string \<Rightarrow> string \<Rightarrow> string \<Rightarrow> string" where
  "py_replace old new [] = (if old = [] then new else [])"
| "py_replace old new (c # cs) =
     (if old = [] then new @ c # py_replace old new cs
      else if startswith (c # cs) old
      then new @ py_replace old new (drop (length old) (c # cs))
      else c # py_replace old new cs)"
  by pat_completeness auto
termination
  by (relation "measure (\<lambda>(old, new, s). length s)") auto

text \<open>\<open>s.lower()\<close> on code points below 256.\<close>

definition lower_char :: "char \<Rightarrow> char" where
  "lower_char c =
     (let n = (of_char c :: nat)
      in if (65 \<le> n \<and> n \<le> 90) \<or> (192 \<le> n \<and> n \<le> 222 \<and> n \<noteq> 215)
         then char_of (n + 32) else c)"

definition lower :: "string \<Rightarrow> string" where
  "lower s = map lower_char s"

subsection \<open>\<open>int(s)\<close>\<close>

text \<open>
  \<open>int(s)\<close> in base 10: surrounding whitespace is dropped, one sign is allowed, and the
  digits may be separated by single underscores. Anything else raises \<open>ValueError\<close>.
  (The limit on the number of digits of CPython 3.11 and later is not modelled.)
\<close>

definition isdigit :: "char \<Rightarrow> bool" where
  "isdigit c = (let n = (of_char c :: nat) in 48 \<le> n \<and> n \<le> 57)"

definition digit_val :: "char \<Rightarrow> int" where
  "digit_val c = int (of_char c) - 48"

fun digits_ok :: "string \<Rightarrow> bool" where
  "digits_ok [] = False"
| "digits_ok [c] = isdigit c"
| "digits_ok (c # d # cs) =
     (isdigit c \<and> (if d = CHR ''_'' then digits_ok cs else digits_ok (d # cs)))"

definition digits_value :: "string \<Rightarrow> int" where
  "digits_value s = foldl (\<lambda>acc c. 10 * acc + digit_val c) 0 (filter (\<lambda>c. c \<noteq> CHR ''_'') s)"

definition py_int :: "string \<Rightarrow> error + int" where
  "py_int s =
     (case py_strip s of
        [] \<Rightarrow> Inl ValueError
      | c # cs \<Rightarrow>
          if c = CHR ''-'' then (if digits_ok cs then Inr (- digits_value cs) else Inl ValueError)
          else if c = CHR ''+'' then (if digits_ok cs then Inr (digits_value cs) else Inl ValueError)
          else if digits_ok (c # cs) then Inr (digits_value (c # cs))
          else Inl ValueError)"

subsection \<open>Lists and dicts\<close>

text \<open>\<open>xs[i]\<close> for \<open>i \<ge> 0\<close>\<close>

definition py_index :: "'a list \<Rightarrow> nat \<Rightarrow> error + 'a" where
  "py_index xs i = (if i < length xs then Inr (xs ! i) else Inl IndexError)"

text \<open>\<open>d.setdefault(k, []).append(v)\<close>\<close>

definition setdefault_append :: "'k \<Rightarrow> 'v \<Rightarrow> ('k \<times> 'v list) list \<Rightarrow> ('k \<times> 'v list) list" where
  "setdefault_append k v d =
     (case map_of d k of
        None \<Rightarrow> AList.update k [v] d
      | Some vs \<Rightarrow> AList.update k (vs @ [v]) d)"

section \<open>Itinerary extraction (\<open>extract_itinerary_data\<close>)\<close>

record activity =
  name :: string
  hour :: int
  duration :: int
  description :: string
  location :: string

text \<open>
  The dict returned by the extractor: the key \<open>"destination"\<close> may be absent, the key
  \<open>"activities"\<close> maps day numbers to activity lists.
\<close>

record itinerary =
  destination :: "string option"
  activities :: "(int \<times> activity list) list"

text \<open>The loop's variables: the dict under construction and \<open>current_day\<close>.\<close>

record extract_state =
  data :: itinerary
  current_day :: int

text \<open>
  First \<open>if\<close> of the loop body. \<open>parts[1]\<close> is outside any \<open>try\<close>, so an \<open>IndexError\<close>
  there would leave the function.
\<close>

definition extract_destination :: "string \<Rightarrow> extract_state \<Rightarrow> error + extract_state" where
  "extract_destination line s =
     (if py_in ''Itinerary for'' line then
        (let parts = py_split ''Itinerary for'' line in
         if length parts > 1 then
           (case py_index parts 1 of
              Inl e \<Rightarrow> Inl e
            | Inr p \<Rightarrow> Inr (s\<lparr>data := (data s)\<lparr>destination := Some (py_strip p)\<rparr>\<rparr>))
         else Inr s)
      else Inr s)"

text \<open>\<open>int(line.split("Day")[1].split(":")[0].strip())\<close>\<close>

definition parse_day :: "string \<Rightarrow> error + int" where
  "parse_day line =
     (case py_index (py_split ''Day'' line) 1 of
        Inl e \<Rightarrow> Inl e
      | Inr a \<Rightarrow>
          (case py_index (py_split '':'' a) 0 of
             Inl e \<Rightarrow> Inl e
           | Inr b \<Rightarrow> py_int (py_strip b)))"

text \<open>
  Second \<open>if\<close>: the day heading. The bare \<open>except: pass\<close> keeps the state as it was
  when the number does not parse.
\<close>

definition is_day_heading :: "string \<Rightarrow> bool" where
  "is_day_heading line = (startswith line ''## Day'' \<or> startswith line ''# Day'')"

definition extract_day :: "string \<Rightarrow> extract_state \<Rightarrow> extract_state" where
  "extract_day line s =
     (if is_day_heading line then
        (case parse_day line of
           Inl e \<Rightarrow> s
         | Inr n \<Rightarrow>
             s\<lparr>current_day := n,
               data := (data s)\<lparr>activities :=
                 (if map_of (activities (data s)) n = None
                  then AList.update n [] (activities (data s))
                  else activities (data s))\<rparr>\<rparr>)
      else s)"

text \<open>The body of the inner \<open>try\<close>, started with \<open>hour = 9\<close>.\<close>

definition try_hour :: "string \<Rightarrow> error + int" where
  "try_hour time_part =
     (if py_in ''AM'' time_part \<or> py_in ''PM'' time_part then
        (let time_str = py_strip time_part in
         if py_in ''AM'' time_str then
           (case py_index (py_split ''AM'' time_str) 0 of
              Inl e \<Rightarrow> Inl e
            | Inr x \<Rightarrow>
                (case py_index (py_split '':'' (py_strip x)) 0 of
                   Inl e \<Rightarrow> Inl e
                 | Inr y \<Rightarrow> py_int y))
         else if py_in ''PM'' time_str then
           (case py_index (py_split ''PM'' time_str) 0 of
              Inl e \<Rightarrow> Inl e
            | Inr x \<Rightarrow>
                (case py_index (py_split '':'' (py_strip x)) 0 of
                   Inl e \<Rightarrow> Inl e
                 | Inr y \<Rightarrow> (case py_int y of Inl e \<Rightarrow> Inl e | Inr h \<Rightarrow> Inr (h + 12))))
         else Inr 9)
      else Inr 9)"

text \<open>The \<open>try\<close> with its \<open>except: pass\<close>: on any exception the hour stays 9.\<close>

definition parse_hour :: "string \<Rightarrow> int" where
  "parse_hour time_part = (case try_hour time_part of Inl e \<Rightarrow> 9 | Inr h \<Rightarrow> h)"

text \<open>\<open>time_part, description = activity_text.split(":", 1)\<close>\<close>

definition unpack2 :: "'a list \<Rightarrow> error + ('a \<times> 'a)" where
  "unpack2 xs = (case xs of [a, b] \<Rightarrow> Inr (a, b) | _ \<Rightarrow> Inl ValueError)"

definition is_bullet :: "string \<Rightarrow> bool" where
  "is_bullet line = (startswith line ''- '' \<or> startswith line ''* '')"

definition make_activity :: "string \<Rightarrow> string \<Rightarrow> itinerary \<Rightarrow> activity" where
  "make_activity time_part descr d =
     \<lparr>name = py_strip descr,
      hour = parse_hour time_part,
      duration = 2,
      description = py_strip descr,
      location = (case destination d of None \<Rightarrow> [] | Some dest \<Rightarrow> dest)\<rparr>"

text \<open>Third \<open>if\<close>: the activity line.\<close>

definition extract_activity :: "string \<Rightarrow> extract_state \<Rightarrow> error + extract_state" where
  "extract_activity line s =
     (if is_bullet line \<and> current_day s > 0 then
        (let activity_text = py_strip (drop 2 line) in
         if py_in '':'' activity_text then
           (case unpack2 (py_split1 '':'' activity_text) of
              Inl e \<Rightarrow> Inl e
            | Inr (time_part, descr) \<Rightarrow>
                Inr (s\<lparr>data := (data s)\<lparr>activities :=
                  setdefault_append (current_day s) (make_activity time_part descr (data s))
                    (activities (data s))\<rparr>\<rparr>))
         else Inr s)
      else Inr s)"

text \<open>One pass of the \<open>for\<close> loop.\<close>

definition extract_line :: "extract_state \<Rightarrow> string \<Rightarrow> error + extract_state" where
  "extract_line s line =
     (case extract_destination line s of
        Inl e \<Rightarrow> Inl e
      | Inr s1 \<Rightarrow> extract_activity line (extract_day line s1))"

fun extract_lines :: "extract_state \<Rightarrow> string list \<Rightarrow> error + extract_state" where
  "extract_lines s [] = Inr s"
| "extract_lines s (line # rest) =
     (case extract_line s line of
        Inl e \<Rightarrow> Inl e
      | Inr s' \<Rightarrow> extract_lines s' rest)"

definition initial_state :: extract_state where
  "initial_state = \<lparr>data = \<lparr>destination = None, activities = []\<rparr>, current_day = 0\<rparr>"

definition extract_itinerary_data :: "string \<Rightarrow> error + itinerary" where
  "extract_itinerary_data markdown_text =
     (case extract_lines initial_state (py_split ''\<newline>'' markdown_text) of
        Inl e \<Rightarrow> Inl e
      | Inr s \<Rightarrow> Inr (data s))"

section \<open>Response cache (\<open>get_cached_response\<close>)\<close>

text \<open>The canned answers, in the order of the table.\<close>

definition COMMON_QUERIES :: "(string \<times> string) list" where
  "COMMON_QUERIES =
     [(''recommend restaurants'',
       ''Here are some top restaurant recommendations for your destination:\<newline>'' @
       ''\<newline>'' @
       ''1. **Local Cuisine** - Always try the regional specialties\<newline>'' @
       ''2. **High-rated places** - Check TripAdvisor or Google reviews\<newline>'' @
       ''3. **Street Food** - Often the most authentic experience\<newline>'' @
       ''4. **Fine Dining** - Make reservations in advance\<newline>'' @
       ''\<newline>'' @
       ''Would you like me to recommend specific restaurants based on your destination?''),
      (''what should i pack'',
       ''**Essential Packing List:**\<newline>'' @
       ''\<newline>'' @
       ''- Travel documents (passport, ID, tickets)\<newline>'' @
       ''- Appropriate clothing for the climate\<newline>'' @
       ''- Comfortable walking shoes\<newline>'' @
       ''- Toiletries and medications\<newline>'' @
       ''- Phone, charger, and adapter\<newline>'' @
       ''- Copy of your itinerary\<newline>'' @
       ''- Travel insurance information\<newline>'' @
       ''\<newline>'' @
       ''For your specific destination, also consider any special items based on planned activities.''),
      (''best time to visit'',
       ''The best time to visit depends on your destination. Generally:\<newline>'' @
       ''\<newline>'' @
       ''- Consider shoulder seasons (spring/fall) for better prices and fewer crowds\<newline>'' @
       ''- Check seasonal weather patterns for your specific location\<newline>'' @
       ''- Be aware of local holidays or festivals that might affect your visit\<newline>'' @
       ''\<newline>'' @
       ''Tell me your specific destination for more tailored advice.''),
      (''transportation options'',
       ''**Common Transportation Options:**\<newline>'' @
       ''\<newline>'' @
       ''- Public transit (subway, bus, tram)\<newline>'' @
       ''- Taxis and rideshare apps\<newline>'' @
       ''- Rental cars\<newline>'' @
       ''- Bicycles\<newline>'' @
       ''- Walking (for smaller cities)\<newline>'' @
       ''- Tours and shuttles\<newline>'' @
       ''\<newline>'' @
       ''The best option depends on your destination, budget, and comfort level. What's your destination?'')]"

text \<open>
  \<open>st.session_state.cached_responses\<close> is a dict from the literal query to the reply.
  The loop over \<open>COMMON_QUERIES.items()\<close> returns the first entry whose key occurs in the
  lower-cased query.
\<close>

type_synonym cache = "(string \<times> string) list"

fun first_common_query :: "string \<Rightarrow> (string \<times> string) list \<Rightarrow> string option" where
  "first_common_query query_lower [] = None"
| "first_common_query query_lower ((key, response) # rest) =
     (if py_in key query_lower then Some response else first_common_query query_lower rest)"

definition get_cached_response :: "cache \<Rightarrow> string \<Rightarrow> string option" where
  "get_cached_response cached_responses query =
     (case map_of cached_responses query of
        Some response \<Rightarrow> Some response
      | None \<Rightarrow> first_common_query (lower query) COMMON_QUERIES)"

text \<open>\<open>st.session_state.cached_responses[prompt] = response\<close>, run after every reply.\<close>

definition store_response :: "string \<Rightarrow> string \<Rightarrow> cache \<Rightarrow> cache" where
  "store_response prompt response cached_responses = AList.update prompt response cached_responses"

section \<open>Backend client (\<open>call_deepseek\<close>)\<close>

record message =
  role :: string
  content :: string

definition SYSTEM_PROMPT :: string where
  "SYSTEM_PROMPT =
     ''You are a travel planning expert EXCLUSIVELY focused on creating travel itineraries.\<newline>'' @
     ''IMPORTANT: You MUST ONLY respond to queries about travel planning, itineraries, or destination information.\<newline>'' @
     ''For ANY other topics (including technology, news, general knowledge, or non-travel questions):\<newline>'' @
     ''1. DO NOT provide any information\<newline>'' @
     ''2. POLITELY redirect the user to ask about travel planning\<newline>'' @
     ''3. REFUSE to engage with the query\<newline>'' @
     ''4. EXPLAIN that you are specifically designed only for travel planning\<newline>'' @
     ''\<newline>'' @
     ''For travel queries:\<newline>'' @
     ''- Extract destination, days, and preferences from user input\<newline>'' @
     ''- Ask follow-up questions if needed\<newline>'' @
     ''- Generate detailed itineraries in markdown with daily activities, dining, and tips\<newline>'' @
     ''- Be concise and friendly\<newline>'' @
     ''\<newline>'' @
     ''Remember: You are STRICTLY LIMITED to travel planning assistance ONLY.''"

definition system_message :: message where
  "system_message = \<lparr>role = ''system'', content = SYSTEM_PROMPT\<rparr>"

text \<open>\<open>messages[-4:] if len(messages) > 4 else messages\<close>\<close>

definition relevant_messages :: "message list \<Rightarrow> message list" where
  "relevant_messages messages =
     (if length messages > 4 then drop (length messages - 4) messages else messages)"

definition messages_to_send :: "message list \<Rightarrow> message list" where
  "messages_to_send messages =
     system_message # filter (\<lambda>m. role m \<noteq> ''system'') (relevant_messages messages)"

text \<open>
  The wording of the specification, for comparison: the system turns are filtered out of
  the whole history first, and the most recent 4 of what is left are sent.
\<close>

definition spec_messages_to_send :: "message list \<Rightarrow> message list" where
  "spec_messages_to_send messages =
     (let turns = filter (\<lambda>m. role m \<noteq> ''system'') messages
      in system_message # drop (length turns - 4) turns)"

text \<open>
  What one \<open>requests.post\<close> followed by \<open>raise_for_status\<close> can do: answer with a status
  code and a body, raise a \<open>RequestException\<close> (connection error, timeout), or raise
  something else. The backend is a parameter: the outcome of the n-th post.
\<close>

datatype post_outcome =
    Responded nat "string list"
  | RequestException
  | OtherException

text \<open>
  The part of the session that the call touches: the call counter, the time of the last
  call, the clock (in the unit of \<open>wait_fixed\<close>), the bodies posted so far and the number of
  error messages shown.
\<close>

record world =
  api_calls :: nat
  last_query_time :: "nat option"
  clock :: nat
  posted :: "message list list"
  errors_shown :: nat

datatype 'a attempt = Returned 'a | Raised

text \<open>
  The function body. \<open>raise_for_status\<close> raises \<open>HTTPError\<close>, a \<open>RequestException\<close>, for the
  status codes 400 to 599; the \<open>except\<close> clause turns every \<open>RequestException\<close> into the
  return value \<open>None\<close>.
\<close>

definition call_deepseek_body ::
  "(nat \<Rightarrow> post_outcome) \<Rightarrow> message list \<Rightarrow> world \<Rightarrow> string list option attempt \<times> world" where
  "call_deepseek_body backend messages w =
     (let w1 = w\<lparr>api_calls := api_calls w + 1, last_query_time := Some (clock w)\<rparr>;
          w2 = w1\<lparr>posted := posted w1 @ [messages_to_send messages]\<rparr>
      in case backend (length (posted w1)) of
           Responded status body \<Rightarrow>
             if 400 \<le> status \<and> status < 600
             then (Returned None, w2\<lparr>errors_shown := errors_shown w2 + 1\<rparr>)
             else (Returned (Some body), w2)
         | RequestException \<Rightarrow> (Returned None, w2\<lparr>errors_shown := errors_shown w2 + 1\<rparr>)
         | OtherException \<Rightarrow> (Raised, w2))"

text \<open>
  The decorator \<open>@retry(stop=stop_after_attempt(3), wait=wait_fixed(2))\<close>: the function is
  called again only when it raises; a returned value, also \<open>None\<close>, ends the loop. After
  the last attempt has raised, \<open>RetryError\<close> is raised.
\<close>

definition stop_after_attempt :: nat where
  "stop_after_attempt = 3"

definition wait_fixed :: nat where
  "wait_fixed = 2"

fun retry :: "nat \<Rightarrow> (world \<Rightarrow> 'a attempt \<times> world) \<Rightarrow> world \<Rightarrow> (error + 'a) \<times> world" where
  "retry 0 f w = (Inl RetryError, w)"
| "retry (Suc n) f w =
     (case f w of
        (Returned v, w') \<Rightarrow> (Inr v, w')
      | (Raised, w') \<Rightarrow>
          if n = 0 then (Inl RetryError, w')
          else retry n f (w'\<lparr>clock := clock w' + wait_fixed\<rparr>))"

definition call_deepseek ::
  "(nat \<Rightarrow> post_outcome) \<Rightarrow> message list \<Rightarrow> world \<Rightarrow> (error + string list option) \<times> world" where
  "call_deepseek backend messages w =
     retry stop_after_attempt (call_deepseek_body backend messages) w"

section \<open>Stream decoder (\<open>stream_text\<close>)\<close>

text \<open>
  A line of \<open>response.iter_lines()\<close> is a byte string: either the UTF-8 encoding of a text
  or bytes that \<open>decode\<close> rejects.
\<close>

datatype raw_line = Utf8 string | Undecodable

text \<open>\<open>decoded_line.replace("data: ", "")\<close>\<close>

definition event_data :: "string \<Rightarrow> string" where
  "event_data decoded_line = py_replace ''data: '' '''' decoded_line"

text \<open>
  The generator: the chunks it yields, and the exception that ends it, if any. The JSON
  reader is a parameter: \<open>content_of data\<close> is the text at \<open>choices[0].delta.content\<close>, and
  \<open>None\<close> when reading it raises, which the \<open>except\<close> clause answers with \<open>continue\<close>.
\<close>

fun stream_text :: "(string \<Rightarrow> string option) \<Rightarrow> raw_line list \<Rightarrow> string list \<times> error option" where
  "stream_text content_of [] = ([], None)"
| "stream_text content_of (Undecodable # rest) = ([], Some UnicodeDecodeError)"
| "stream_text content_of (Utf8 decoded_line # rest) =
     (if decoded_line \<noteq> [] \<and> startswith decoded_line ''data: '' then
        (if event_data decoded_line = ''[DONE]'' then ([], None)
         else (case content_of (event_data decoded_line) of
                 None \<Rightarrow> stream_text content_of rest
               | Some chunk \<Rightarrow>
                   if chunk \<noteq> []
                   then (chunk # fst (stream_text content_of rest), snd (stream_text content_of rest))
                   else stream_text content_of rest))
      else stream_text content_of rest)"

section \<open>Calendar export (\<open>create_ics\<close>)\<close>

text \<open>
  A \<open>date\<close> is its proleptic ordinal (1 for 0001-01-01, at most 3652059); a \<open>datetime\<close> is
  the number of microseconds since 0001-01-01T00:00:00. A \<open>timedelta\<close> is a number of
  microseconds whose whole days stay within 999999999 in magnitude.
\<close>

datatype moment = Date int | DateTime int

definition MAXORDINAL :: int where
  "MAXORDINAL = 3652059"

definition us_per_hour :: int where
  "us_per_hour = 3600000000"

definition us_per_day :: int where
  "us_per_day = 86400000000"

text \<open>\<open>timedelta(days=d, hours=h)\<close>\<close>

definition timedelta :: "int \<Rightarrow> int \<Rightarrow> error + int" where
  "timedelta days hours =
     (let us = (days * 24 + hours) * us_per_hour
      in if abs (us div us_per_day) > 999999999 then Inl OverflowError else Inr us)"

text \<open>\<open>start + delta\<close>; a \<open>date\<close> only takes the whole days of the delta.\<close>

definition add_timedelta :: "moment \<Rightarrow> int \<Rightarrow> error + moment" where
  "add_timedelta start delta =
     (case start of
        Date ordinal \<Rightarrow>
          (let o' = ordinal + delta div us_per_day
           in if 0 < o' \<and> o' \<le> MAXORDINAL then Inr (Date o') else Inl OverflowError)
      | DateTime us \<Rightarrow>
          (let us' = us + delta
           in if 0 \<le> us' \<and> us' < MAXORDINAL * us_per_day then Inr (DateTime us')
              else Inl OverflowError))"

record session_itinerary = itinerary +
  start_date :: "moment option"

record event =
  ev_name :: string
  ev_begin :: moment
  ev_duration :: int
  ev_description :: string
  ev_location :: string

text \<open>The body of the inner loop: one event for one activity.\<close>

definition make_event :: "moment \<Rightarrow> int \<Rightarrow> activity \<Rightarrow> error + event" where
  "make_event start day_num a =
     (case timedelta (day_num - 1) (hour a) of
        Inl e \<Rightarrow> Inl e
      | Inr delta \<Rightarrow>
          (case add_timedelta start delta of
             Inl e \<Rightarrow> Inl e
           | Inr b \<Rightarrow>
               (case timedelta 0 (duration a) of
                  Inl e \<Rightarrow> Inl e
                | Inr dur \<Rightarrow>
                    Inr \<lparr>ev_name = name a, ev_begin = b, ev_duration = dur,
                         ev_description = description a, ev_location = location a\<rparr>)))"

fun day_events :: "moment \<Rightarrow> int \<Rightarrow> activity list \<Rightarrow> error + event list" where
  "day_events start day_num [] = Inr []"
| "day_events start day_num (a # rest) =
     (case make_event start day_num a of
        Inl e \<Rightarrow> Inl e
      | Inr ev \<Rightarrow>
          (case day_events start day_num rest of
             Inl e \<Rightarrow> Inl e
           | Inr evs \<Rightarrow> Inr (ev # evs)))"

fun all_events :: "moment \<Rightarrow> (int \<times> activity list) list \<Rightarrow> error + event list" where
  "all_events start [] = Inr []"
| "all_events start ((day_num, acts) # rest) =
     (case day_events start day_num acts of
        Inl e \<Rightarrow> Inl e
      | Inr evs \<Rightarrow>
          (case all_events start rest of
             Inl e \<Rightarrow> Inl e
           | Inr later \<Rightarrow> Inr (evs @ later)))"

text \<open>
  \<open>create_ics\<close>, with the reading of \<open>datetime.now()\<close> as the parameter \<open>now\<close>. The result is
  the events added to the calendar, in the order of the loops; writing them out as text is
  the library's part.
\<close>

definition create_ics :: "int \<Rightarrow> session_itinerary \<Rightarrow> error + event list" where
  "create_ics now itinerary_data =
     (let start = (case start_date itinerary_data of None \<Rightarrow> DateTime now | Some d \<Rightarrow> d)
      in all_events start (activities itinerary_data))"

section \<open>Predicates used in the statements\<close>

text \<open>
  A day number is introduced by the lines \<open>ls\<close> when one of them is a day heading whose
  number parses to it.
\<close>

definition introduced :: "string list \<Rightarrow> int \<Rightarrow> bool" where
  "introduced ls d = (\<exists>h \<in> set ls. is_day_heading h \<and> parse_day h = Inr d)"

text \<open>The loop invariant of the extractor, for the lines \<open>ls\<close> read so far.\<close>

definition days_invariant :: "string list \<Rightarrow> extract_state \<Rightarrow> bool" where
  "days_invariant ls s =
     ((\<forall>(d, acts) \<in> set (activities (data s)). introduced ls d \<and> (acts \<noteq> [] \<longrightarrow> 1 \<le> d))
      \<and> (0 < current_day s \<longrightarrow> map_of (activities (data s)) (current_day s) \<noteq> None))"

text \<open>
  The event the calendar export is expected to build for an activity of day \<open>day_num\<close>
  when the base is the datetime \<open>now\<close>.
\<close>

definition expected_event :: "int \<Rightarrow> int \<Rightarrow> activity \<Rightarrow> event" where
  "expected_event now day_num a =
     \<lparr>ev_name = name a,
      ev_begin = DateTime (now + ((day_num - 1) * 24 + hour a) * us_per_hour),
      ev_duration = duration a * us_per_hour,
      ev_description = description a,
      ev_location = location a\<rparr>"

text \<open>
  The event times stay within what \<open>timedelta\<close> and \<open>datetime\<close> can hold; outside, the
  arithmetic raises \<open>OverflowError\<close> whatever the start date is.
\<close>

definition in_datetime_range :: "int \<Rightarrow> int \<Rightarrow> activity \<Rightarrow> bool" where
  "in_datetime_range now day_num a =
     (abs ((day_num - 1) + hour a div 24) \<le> 999999999
      \<and> 0 \<le> now + ((day_num - 1) * 24 + hour a) * us_per_hour
      \<and> now + ((day_num - 1) * 24 + hour a) * us_per_hour < MAXORDINAL * us_per_day
      \<and> abs (duration a div 24) \<le> 999999999)"

section \<open>Properties of the string functions\<close>

lemma py_split1_in:
  "sep \<noteq> [] \<Longrightarrow> py_in sep s \<Longrightarrow> \<exists>a b. py_split1 sep s = [a, b]"
proof (induction s)
  case Nil
  then show ?case by simp
next
  case (Cons c cs)
  show ?case
  proof (cases "startswith (c # cs) sep")
    case True
    with Cons.prems show ?thesis by simp
  next
    case False
    with Cons.prems have "py_in sep cs" by simp
    with Cons.IH Cons.prems obtain a b where "py_split1 sep cs = [a, b]" by blast
    with False show ?thesis by simp
  qed
qed

lemma startswith_drop: "startswith s p \<Longrightarrow> s = p @ drop (length p) s"
  by (induction s p rule: startswith.induct) auto

lemma length_py_replace_le: "length (py_replace old [] s) \<le> length s"
proof (induction old "[] :: string" s rule: py_replace.induct)
  case (1 old)
  show ?case by simp
next
  case (2 old c cs)
  show ?case
  proof (cases "old = []")
    case True
    with 2 show ?thesis by simp
  next
    case False
    show ?thesis
    proof (cases "startswith (c # cs) old")
      case True
      with False 2(2) have "length (py_replace old [] (c # cs)) \<le> length (drop (length old) (c # cs))"
        by simp
      then show ?thesis by simp
    next
      case no: False
      with False 2(3) show ?thesis by simp
    qed
  qed
qed

lemma length_py_replace_less:
  "old \<noteq> [] \<Longrightarrow> py_in old s \<Longrightarrow> length (py_replace old [] s) < length s"
proof (induction s)
  case Nil
  then show ?case by simp
next
  case (Cons c cs)
  show ?case
  proof (cases "startswith (c # cs) old")
    case True
    have le: "length (py_replace old [] (drop (length old) (c # cs))) \<le> length (c # cs) - length old"
      using length_py_replace_le [of old "drop (length old) (c # cs)"] by simp
    from Cons.prems(1) have "1 \<le> length old" by (cases old) simp_all
    with le have "length (py_replace old [] (drop (length old) (c # cs))) < length (c # cs)"
      unfolding list.size by arith
    moreover from True Cons.prems(1)
    have "py_replace old [] (c # cs) = py_replace old [] (drop (length old) (c # cs))"
      by simp
    ultimately show ?thesis by simp
  next
    case False
    with Cons.prems have "py_in old cs" by simp
    with Cons.IH Cons.prems(1) have "length (py_replace old [] cs) < length cs" by simp
    with False Cons.prems(1) show ?thesis by simp
  qed
qed

lemma py_replace_prefix:
  "old \<noteq> [] \<Longrightarrow> py_replace old new (old @ rest) = new @ py_replace old new rest"
proof -
  assume ne: "old \<noteq> []"
  then obtain c cs where oc: "old @ rest = c # cs" by (cases old) auto
  have sw: "startswith (old @ rest) old"
    by (induction old) auto
  from ne oc sw have "py_replace old new (old @ rest) = new @ py_replace old new (drop (length old) (old @ rest))"
    by (metis py_replace.simps(2))
  then show ?thesis by simp
qed

section \<open>The extractor never fails\<close>

lemma extract_destination_total: "\<exists>s'. extract_destination line s = Inr s'"
  by (simp add: extract_destination_def py_index_def Let_def)

lemma extract_activity_total: "\<exists>s'. extract_activity line s = Inr s'"
proof (cases "py_in '':'' (py_strip (drop 2 line))")
  case True
  then obtain a b where "py_split1 '':'' (py_strip (drop 2 line)) = [a, b]"
    using py_split1_in [of "'':''" "py_strip (drop 2 line)"] by auto
  then show ?thesis by (simp add: extract_activity_def unpack2_def Let_def)
next
  case False
  then show ?thesis by (simp add: extract_activity_def Let_def)
qed

lemma extract_line_total: "\<exists>s'. extract_line s line = Inr s'"
proof -
  obtain s1 where s1: "extract_destination line s = Inr s1"
    using extract_destination_total by blast
  obtain s2 where "extract_activity line (extract_day line s1) = Inr s2"
    using extract_activity_total by blast
  with s1 show ?thesis by (simp add: extract_line_def)
qed

lemma extract_lines_total: "\<exists>s'. extract_lines s ls = Inr s'"
proof (induction ls arbitrary: s)
  case Nil
  show ?case by simp
next
  case (Cons l ls)
  obtain s1 where s1: "extract_line s l = Inr s1" using extract_line_total by blast
  obtain s2 where "extract_lines s1 ls = Inr s2" using Cons.IH by blast
  with s1 show ?case by simp
qed

lemma heading_not_bullet: "is_day_heading line \<Longrightarrow> \<not> is_bullet line"
  by (cases line) (auto simp: is_day_heading_def is_bullet_def)

lemma extract_destination_keeps:
  "extract_destination line s = Inr s' \<Longrightarrow>
     current_day s' = current_day s \<and> activities (data s') = activities (data s)"
  by (auto simp: extract_destination_def Let_def split: if_splits sum.splits)

lemma extract_day_no_heading: "\<not> is_day_heading line \<Longrightarrow> extract_day line s = s"
  by (simp add: extract_day_def)

lemma extract_activity_no_day:
  "current_day s \<le> 0 \<Longrightarrow> extract_activity line s = Inr s"
  by (simp add: extract_activity_def)

lemma extract_line_no_heading:
  assumes "\<not> is_day_heading line" "current_day s = 0" "activities (data s) = []"
    and "extract_line s line = Inr s'"
  shows "current_day s' = 0 \<and> activities (data s') = []"
proof -
  from assms(4) obtain s1 where s1: "extract_destination line s = Inr s1"
    and s': "extract_activity line (extract_day line s1) = Inr s'"
    by (auto simp: extract_line_def split: sum.splits)
  from s1 assms(2,3) have k: "current_day s1 = 0" "activities (data s1) = []"
    using extract_destination_keeps by auto
  from s' assms(1) k have "s' = s1"
    by (simp add: extract_day_no_heading extract_activity_no_day)
  with k show ?thesis by simp
qed

lemma extract_lines_no_heading:
  "\<forall>line \<in> set ls. \<not> is_day_heading line \<Longrightarrow> current_day s = 0 \<Longrightarrow>
   activities (data s) = [] \<Longrightarrow> extract_lines s ls = Inr s' \<Longrightarrow>
   current_day s' = 0 \<and> activities (data s') = []"
proof (induction ls arbitrary: s)
  case Nil
  then show ?case by simp
next
  case (Cons l ls)
  from Cons.prems(4) obtain s1 where s1: "extract_line s l = Inr s1"
    and rest: "extract_lines s1 ls = Inr s'"
    by (auto split: sum.splits)
  from Cons.prems(1) have nh: "\<not> is_day_heading l" by simp
  from extract_line_no_heading [OF nh Cons.prems(2) Cons.prems(3) s1]
  have "current_day s1 = 0" "activities (data s1) = []" by simp_all
  with Cons.IH [of s1] Cons.prems(1) rest show ?case by simp
qed

text \<open>
  Claim C8. The extractor returns an itinerary for every text: no exception leaves the
  function. When no line of the text begins with \<open># Day\<close> or \<open>## Day\<close>, the itinerary
  it returns has an empty table of days.
\<close>

theorem extract_total_and_empty_without_day_heading:
  "(\<exists>it. extract_itinerary_data text = Inr it) \<and>
   ((\<forall>line \<in> set (py_split ''\<newline>'' text).
        \<not> startswith line ''# Day'' \<and> \<not> startswith line ''## Day'') \<longrightarrow>
    (\<exists>it. extract_itinerary_data text = Inr it \<and> activities it = []))"
proof -
  obtain s where s: "extract_lines initial_state (py_split ''\<newline>'' text) = Inr s"
    using extract_lines_total by blast
  then have tot: "extract_itinerary_data text = Inr (data s)"
    by (simp add: extract_itinerary_data_def)
  have "activities (data s) = []"
    if "\<forall>line \<in> set (py_split ''\<newline>'' text).
          \<not> startswith line ''# Day'' \<and> \<not> startswith line ''## Day''"
  proof -
    from that have "\<forall>line \<in> set (py_split ''\<newline>'' text). \<not> is_day_heading line"
      by (simp add: is_day_heading_def)
    from extract_lines_no_heading [OF this _ _ s] show ?thesis
      by (simp add: initial_state_def)
  qed
  with tot show ?thesis by blast
qed

theorem extract_total_and_empty_without_day_heading_witness:
  "(\<exists>it. extract_itinerary_data ''Itinerary for Rome\<newline>- 9 AM: Walk\<newline>Day 1: Forum'' = Inr it
          \<and> activities it = [])
   \<and> extract_itinerary_data ''Itinerary for Rome\<newline>- 9 AM: Walk\<newline>Day 1: Forum''
     = Inr \<lparr>destination = Some ''Rome'', activities = []\<rparr>"
proof -
  have h: "\<forall>line \<in> set (py_split ''\<newline>'' ''Itinerary for Rome\<newline>- 9 AM: Walk\<newline>Day 1: Forum'').
        \<not> startswith line ''# Day'' \<and> \<not> startswith line ''## Day''"
    by code_simp
  have v: "extract_itinerary_data ''Itinerary for Rome\<newline>- 9 AM: Walk\<newline>Day 1: Forum''
     = Inr \<lparr>destination = Some ''Rome'', activities = []\<rparr>"
    by code_simp
  from extract_total_and_empty_without_day_heading
    [of "''Itinerary for Rome\<newline>- 9 AM: Walk\<newline>Day 1: Forum''"] h
  have "\<exists>it. extract_itinerary_data ''Itinerary for Rome\<newline>- 9 AM: Walk\<newline>Day 1: Forum'' = Inr it
          \<and> activities it = []"
    by blast
  with v show ?thesis by blast
qed

section \<open>What the extractor computes on the documented examples\<close>

text \<open>
  Claim C1. On the end-to-end text of the specification the extractor is expected to return
  destination Paris, day 1 with the Eiffel Tower visit at hour 9 and the dinner at hour 19,
  and day 2 with the Louvre Museum at hour 10. The code splits every activity at its first
  colon, which is the colon inside \<open>9:00\<close>: the time portion is the bare number, holds no
  \<open>AM\<close> or \<open>PM\<close>, and the hour stays at the default 9 for all three activities, while the
  rest of the time ends up in the name.
\<close>

theorem extract_paris_scenario:
  "extract_itinerary_data
     ''Itinerary for Paris\<newline>## Day 1: Arrival\<newline>- 9:00 AM: Visit Eiffel Tower\<newline>- 7:00 PM: Dinner at Le Jules Verne\<newline>## Day 2: Exploration\<newline>- 10:00 AM: Louvre Museum''
   = Inr \<lparr>destination = Some ''Paris'',
          activities =
            [(1, [\<lparr>name = ''00 AM: Visit Eiffel Tower'', hour = 9, duration = 2,
                   description = ''00 AM: Visit Eiffel Tower'', location = ''Paris''\<rparr>,
                  \<lparr>name = ''00 PM: Dinner at Le Jules Verne'', hour = 9, duration = 2,
                   description = ''00 PM: Dinner at Le Jules Verne'', location = ''Paris''\<rparr>]),
             (2, [\<lparr>name = ''00 AM: Louvre Museum'', hour = 9, duration = 2,
                   description = ''00 AM: Louvre Museum'', location = ''Paris''\<rparr>])]\<rparr>"
  by code_simp

text \<open>
  Claim C2. The activity line \<open>- 2:00 PM: Museum\<close> is expected to yield hour 14. After a
  day heading, the code yields hour 9 with the name \<open>00 PM: Museum\<close>: the time portion
  before the first colon is \<open>2\<close>, without a marker. A time written without a colon,
  \<open>- 2 PM: Museum\<close>, does give 14, and \<open>- 9:00 AM: Breakfast\<close> and
  \<open>- Afternoon: Museum\<close> give 9, both through the default.
\<close>

theorem extract_time_examples:
  "extract_itinerary_data
     ''## Day 1: Town\<newline>- 2:00 PM: Museum\<newline>- 9:00 AM: Breakfast\<newline>- Afternoon: Museum\<newline>- 2 PM: Museum''
   = Inr \<lparr>destination = None,
          activities =
            [(1, [\<lparr>name = ''00 PM: Museum'', hour = 9, duration = 2,
                   description = ''00 PM: Museum'', location = []\<rparr>,
                  \<lparr>name = ''00 AM: Breakfast'', hour = 9, duration = 2,
                   description = ''00 AM: Breakfast'', location = []\<rparr>,
                  \<lparr>name = ''Museum'', hour = 9, duration = 2,
                   description = ''Museum'', location = []\<rparr>,
                  \<lparr>name = ''Museum'', hour = 14, duration = 2,
                   description = ''Museum'', location = []\<rparr>])]\<rparr>"
  by code_simp

text \<open>
  Claim C5. Every extracted hour is expected to lie between 0 and 23. The code adds 12 to
  every \<open>PM\<close> hour, also to 12: the line \<open>- 12 PM: Lunch\<close> yields hour 24.
\<close>

theorem extract_noon_hour:
  "extract_itinerary_data ''## Day 1: Town\<newline>- 12 PM: Lunch''
   = Inr \<lparr>destination = None,
          activities =
            [(1, [\<lparr>name = ''Lunch'', hour = 24, duration = 2,
                   description = ''Lunch'', location = []\<rparr>])]\<rparr>"
  by code_simp

section \<open>Day numbers\<close>

lemma introduced_mono: "introduced ls d \<Longrightarrow> introduced (ls @ [l]) d"
  by (auto simp: introduced_def)

lemma set_update_subset: "(k', v') \<in> set (AList.update k v al) \<Longrightarrow> (k', v') = (k, v) \<or> (k', v') \<in> set al"
  by (induction al) (auto split: if_splits)

lemma map_of_in_set: "map_of al k = Some v \<Longrightarrow> (k, v) \<in> set al"
  by (rule map_of_SomeD)

lemma extract_day_heading_cases:
  assumes "is_day_heading line"
  shows "(extract_day line s = s \<and> (\<forall>n. parse_day line \<noteq> Inr n))
       \<or> (\<exists>n. parse_day line = Inr n \<and> current_day (extract_day line s) = n
             \<and> activities (data (extract_day line s))
                = (if map_of (activities (data s)) n = None
                   then AList.update n [] (activities (data s)) else activities (data s)))"
  using assms by (auto simp: extract_day_def split: sum.splits)

lemma extract_activity_cases:
  assumes "extract_activity line s = Inr s'"
  shows "s' = s \<or> (is_bullet line \<and> 0 < current_day s \<and> current_day s' = current_day s
          \<and> (\<exists>a. activities (data s') = setdefault_append (current_day s) a (activities (data s))))"
  using assms
  by (auto simp: extract_activity_def Let_def split: if_splits sum.splits prod.splits)

text \<open>What one line does to the day table.\<close>

lemma extract_line_effect:
  assumes "extract_line s line = Inr s'"
  shows "(current_day s' = current_day s \<and> activities (data s') = activities (data s))
       \<or> (is_day_heading line \<and> parse_day line = Inr (current_day s')
            \<and> activities (data s')
                = (if map_of (activities (data s)) (current_day s') = None
                   then AList.update (current_day s') [] (activities (data s))
                   else activities (data s)))
       \<or> (\<not> is_day_heading line \<and> 0 < current_day s \<and> current_day s' = current_day s
            \<and> (\<exists>a. activities (data s') = setdefault_append (current_day s) a (activities (data s))))"
proof -
  from assms obtain s1 where s1: "extract_destination line s = Inr s1"
    and s': "extract_activity line (extract_day line s1) = Inr s'"
    by (auto simp: extract_line_def split: sum.splits)
  from s1 have k: "current_day s1 = current_day s" "activities (data s1) = activities (data s)"
    using extract_destination_keeps by auto
  show ?thesis
  proof (cases "is_day_heading line")
    case True
    then have "\<not> is_bullet line" by (rule heading_not_bullet)
    with s' have eq: "s' = extract_day line s1" by (simp add: extract_activity_def)
    from extract_day_heading_cases [OF True, of s1] show ?thesis
    proof
      assume "extract_day line s1 = s1 \<and> (\<forall>n. parse_day line \<noteq> Inr n)"
      with eq k show ?thesis by simp
    next
      assume "\<exists>n. parse_day line = Inr n \<and> current_day (extract_day line s1) = n
             \<and> activities (data (extract_day line s1))
                = (if map_of (activities (data s1)) n = None
                   then AList.update n [] (activities (data s1)) else activities (data s1))"
      with eq k True show ?thesis by force
    qed
  next
    case False
    then have "extract_day line s1 = s1" by (rule extract_day_no_heading)
    with s' have "extract_activity line s1 = Inr s'" by simp
    from extract_activity_cases [OF this] k False show ?thesis by auto
  qed
qed

lemma days_invariant_step:
  assumes inv: "days_invariant ls s" and step: "extract_line s line = Inr s'"
  shows "days_invariant (ls @ [line]) s'"
proof -
  from inv have old: "\<And>d acts. (d, acts) \<in> set (activities (data s)) \<Longrightarrow>
      introduced (ls @ [line]) d \<and> (acts \<noteq> [] \<longrightarrow> 1 \<le> d)"
    by (auto simp: days_invariant_def intro: introduced_mono)
  from inv have cur: "0 < current_day s \<Longrightarrow> map_of (activities (data s)) (current_day s) \<noteq> None"
    by (simp add: days_invariant_def)
  from extract_line_effect [OF step] consider
    (same) "current_day s' = current_day s" "activities (data s') = activities (data s)"
  | (heading) "is_day_heading line" "parse_day line = Inr (current_day s')"
      "activities (data s')
                = (if map_of (activities (data s)) (current_day s') = None
                   then AList.update (current_day s') [] (activities (data s))
                   else activities (data s))"
  | (bullet) a where "0 < current_day s" "current_day s' = current_day s"
      "activities (data s') = setdefault_append (current_day s) a (activities (data s))"
    by blast
  then show ?thesis
  proof cases
    case same
    with old cur show ?thesis by (auto simp: days_invariant_def)
  next
    case heading
    then have intro: "introduced (ls @ [line]) (current_day s')"
      by (auto simp: introduced_def)
    have "introduced (ls @ [line]) d \<and> (acts \<noteq> [] \<longrightarrow> 1 \<le> d)"
      if "(d, acts) \<in> set (activities (data s'))" for d acts
    proof (cases "map_of (activities (data s)) (current_day s') = None")
      case True
      with heading(3) that have "(d, acts) = (current_day s', []) \<or> (d, acts) \<in> set (activities (data s))"
        using set_update_subset by fastforce
      with intro old show ?thesis by auto
    next
      case False
      with heading(3) that old show ?thesis by auto
    qed
    moreover have "map_of (activities (data s')) (current_day s') \<noteq> None"
      using heading(3) by (auto simp: update_conv')
    ultimately show ?thesis by (auto simp: days_invariant_def)
  next
    case bullet
    from cur bullet(1) obtain vs where vs: "map_of (activities (data s)) (current_day s) = Some vs"
      by auto
    with bullet(3) have acts': "activities (data s')
        = AList.update (current_day s) (vs @ [a]) (activities (data s))"
      by (simp add: setdefault_append_def)
    from vs have "(current_day s, vs) \<in> set (activities (data s))" by (rule map_of_SomeD)
    with old have intro: "introduced (ls @ [line]) (current_day s)" by blast
    have "introduced (ls @ [line]) d \<and> (acts \<noteq> [] \<longrightarrow> 1 \<le> d)"
      if "(d, acts) \<in> set (activities (data s'))" for d acts
    proof -
      from that acts' have "(d, acts) = (current_day s, vs @ [a]) \<or> (d, acts) \<in> set (activities (data s))"
        using set_update_subset by fastforce
      with intro old bullet(1) show ?thesis by auto
    qed
    moreover have "map_of (activities (data s')) (current_day s') \<noteq> None"
      using acts' bullet(2) by (simp add: update_conv')
    ultimately show ?thesis by (auto simp: days_invariant_def)
  qed
qed

lemma days_invariant_lines:
  "days_invariant pre s \<Longrightarrow> extract_lines s ls = Inr s' \<Longrightarrow> days_invariant (pre @ ls) s'"
proof (induction ls arbitrary: pre s)
  case Nil
  then show ?case by simp
next
  case (Cons l ls)
  from Cons.prems(2) obtain s1 where s1: "extract_line s l = Inr s1"
    and rest: "extract_lines s1 ls = Inr s'"
    by (auto split: sum.splits)
  from days_invariant_step [OF Cons.prems(1) s1] have "days_invariant (pre @ [l]) s1" .
  from Cons.IH [OF this rest] show ?case by simp
qed

lemma days_invariant_initial: "days_invariant [] initial_state"
  by (simp add: days_invariant_def initial_state_def)

text \<open>
  Claim C4, as stated, asks that every key of the table of days be at least 1, also for
  headings such as \<open># Day 0:\<close> and \<open># Day -3:\<close>. The heading branch registers whatever
  integer it parses: both headings become keys, and both stay without activities, since
  activity lines are only read while the current day is positive.
\<close>

theorem heading_below_one_counterexample:
  "extract_itinerary_data ''# Day 0:\<newline>- 9 AM: Walk\<newline># Day -3:\<newline>* 1 PM: Lunch''
     = Inr \<lparr>destination = None, activities = [(0, []), (- 3, [])]\<rparr>"
  by code_simp

text \<open>
  Claim C4, as amended. In the itinerary returned for a text, every key of the table of
  days is the number of a day heading of the text, and every key that holds an activity is
  at least 1. Moreover, line by line: when a line changes the entry of a day \<open>d\<close>, either
  the line is a day heading with number \<open>d\<close> and registers \<open>d\<close> with no activity, or an
  activity is appended to the entry of \<open>d\<close>, and then \<open>d\<close> is at least 1 and was introduced
  by a day heading among the lines before.
\<close>

theorem day_keys_introduced_by_headings:
  assumes "extract_itinerary_data text = Inr it"
  shows "(\<forall>(d, acts) \<in> set (activities it).
            introduced (py_split ''\<newline>'' text) d \<and> (acts \<noteq> [] \<longrightarrow> 1 \<le> d))
       \<and> (\<forall>pre line post s s' d.
            py_split ''\<newline>'' text = pre @ line # post
            \<and> extract_lines initial_state pre = Inr s
            \<and> extract_line s line = Inr s'
            \<and> map_of (activities (data s')) d \<noteq> map_of (activities (data s)) d
            \<longrightarrow> (is_day_heading line \<and> parse_day line = Inr d
                   \<and> map_of (activities (data s')) d = Some [])
                \<or> (1 \<le> d \<and> introduced pre d
                   \<and> (\<exists>vs a. map_of (activities (data s)) d = Some vs
                         \<and> map_of (activities (data s')) d = Some (vs @ [a]))))"
proof (intro conjI allI impI)
  from assms obtain sf where sf: "extract_lines initial_state (py_split ''\<newline>'' text) = Inr sf"
    and it: "it = data sf"
    by (auto simp: extract_itinerary_data_def split: sum.splits)
  from days_invariant_lines [OF days_invariant_initial sf]
  have "days_invariant (py_split ''\<newline>'' text) sf" by simp
  with it show "\<forall>(d, acts) \<in> set (activities it).
            introduced (py_split ''\<newline>'' text) d \<and> (acts \<noteq> [] \<longrightarrow> 1 \<le> d)"
    by (simp add: days_invariant_def)
next
  fix pre line post s s' d
  assume h: "py_split ''\<newline>'' text = pre @ line # post
            \<and> extract_lines initial_state pre = Inr s
            \<and> extract_line s line = Inr s'
            \<and> map_of (activities (data s')) d \<noteq> map_of (activities (data s)) d"
  then have run: "extract_lines initial_state pre = Inr s"
    and step: "extract_line s line = Inr s'"
    and changed: "map_of (activities (data s')) d \<noteq> map_of (activities (data s)) d"
    by simp_all
  from days_invariant_lines [OF days_invariant_initial run]
  have inv: "days_invariant pre s" by simp
  from extract_line_effect [OF step] consider
    (same) "activities (data s') = activities (data s)"
  | (heading) "is_day_heading line" "parse_day line = Inr (current_day s')"
      "activities (data s')
                = (if map_of (activities (data s)) (current_day s') = None
                   then AList.update (current_day s') [] (activities (data s))
                   else activities (data s))"
  | (bullet) a where "0 < current_day s"
      "activities (data s') = setdefault_append (current_day s) a (activities (data s))"
    by blast
  then show "(is_day_heading line \<and> parse_day line = Inr d
                   \<and> map_of (activities (data s')) d = Some [])
                \<or> (1 \<le> d \<and> introduced pre d
                   \<and> (\<exists>vs a. map_of (activities (data s)) d = Some vs
                         \<and> map_of (activities (data s')) d = Some (vs @ [a])))"
  proof cases
    case same
    with changed show ?thesis by simp
  next
    case heading
    from heading(3) changed have none: "map_of (activities (data s)) (current_day s') = None"
      by (auto split: if_splits)
    with heading(3) have "map_of (activities (data s'))
        = (map_of (activities (data s)))(current_day s' \<mapsto> [])"
      by (simp add: update_conv')
    with changed have "d = current_day s'" "map_of (activities (data s')) d = Some []"
      by (auto split: if_splits)
    with heading(1,2) show ?thesis by simp
  next
    case bullet
    from inv bullet(1) obtain vs where vs: "map_of (activities (data s)) (current_day s) = Some vs"
      by (auto simp: days_invariant_def)
    with bullet(2) have "map_of (activities (data s'))
        = (map_of (activities (data s)))(current_day s \<mapsto> vs @ [a])"
      by (simp add: setdefault_append_def update_conv')
    with changed have d: "d = current_day s" and new: "map_of (activities (data s')) d = Some (vs @ [a])"
      by (auto split: if_splits)
    from vs have "(current_day s, vs) \<in> set (activities (data s))" by (rule map_of_SomeD)
    with inv have "introduced pre (current_day s)" by (auto simp: days_invariant_def)
    with d new vs bullet(1) show ?thesis by auto
  qed
qed

theorem day_keys_introduced_by_headings_witness:
  "extract_itinerary_data ''## Day 2: Old town\<newline>- 9 AM: Forum''
     = Inr \<lparr>destination = None,
            activities = [(2, [\<lparr>name = ''Forum'', hour = 9, duration = 2,
                                description = ''Forum'', location = []\<rparr>])]\<rparr>
   \<and> introduced (py_split ''\<newline>'' ''## Day 2: Old town\<newline>- 9 AM: Forum'') 2"
proof -
  have v: "extract_itinerary_data ''## Day 2: Old town\<newline>- 9 AM: Forum''
     = Inr \<lparr>destination = None,
            activities = [(2, [\<lparr>name = ''Forum'', hour = 9, duration = 2,
                                description = ''Forum'', location = []\<rparr>])]\<rparr>"
    by code_simp
  from day_keys_introduced_by_headings [OF v]
  have "introduced (py_split ''\<newline>'' ''## Day 2: Old town\<newline>- 9 AM: Forum'') 2"
    by simp
  with v show ?thesis by simp
qed

section \<open>Cache\<close>

text \<open>
  Claim C6. After a reply \<open>r\<close> has been stored for the query \<open>q\<close>, looking \<open>q\<close> up in
  that cache returns exactly \<open>r\<close>, for every \<open>q\<close> and \<open>r\<close>: the exact match is tried before
  the table of canned answers.
\<close>

theorem lookup_after_store:
  "get_cached_response (store_response q r cached_responses) q = Some r"
  by (simp add: get_cached_response_def store_response_def update_conv')

section \<open>Context sent to the backend\<close>

text \<open>
  Claim C7, as stated, asks for the most recent 4 turns of the history from which the
  system turns have been filtered out, so that 4 turns are sent whenever 4 non-system turns
  exist. The code cuts the history to its last 4 turns first and filters afterwards: with a
  system turn among the last four, only 3 turns follow the system instruction although the
  history holds 4 non-system turns.
\<close>

theorem history_cut_before_filter_counterexample:
  "length (filter (\<lambda>m. role m \<noteq> ''system'')
      [\<lparr>role = ''user'', content = ''u1''\<rparr>, \<lparr>role = ''assistant'', content = ''a1''\<rparr>,
       \<lparr>role = ''user'', content = ''u2''\<rparr>, \<lparr>role = ''assistant'', content = ''a2''\<rparr>,
       \<lparr>role = ''system'', content = ''s''\<rparr>]) = 4
   \<and> messages_to_send
      [\<lparr>role = ''user'', content = ''u1''\<rparr>, \<lparr>role = ''assistant'', content = ''a1''\<rparr>,
       \<lparr>role = ''user'', content = ''u2''\<rparr>, \<lparr>role = ''assistant'', content = ''a2''\<rparr>,
       \<lparr>role = ''system'', content = ''s''\<rparr>]
     = [system_message, \<lparr>role = ''assistant'', content = ''a1''\<rparr>,
        \<lparr>role = ''user'', content = ''u2''\<rparr>, \<lparr>role = ''assistant'', content = ''a2''\<rparr>]
   \<and> spec_messages_to_send
      [\<lparr>role = ''user'', content = ''u1''\<rparr>, \<lparr>role = ''assistant'', content = ''a1''\<rparr>,
       \<lparr>role = ''user'', content = ''u2''\<rparr>, \<lparr>role = ''assistant'', content = ''a2''\<rparr>,
       \<lparr>role = ''system'', content = ''s''\<rparr>]
     = [system_message, \<lparr>role = ''user'', content = ''u1''\<rparr>, \<lparr>role = ''assistant'', content = ''a1''\<rparr>,
        \<lparr>role = ''user'', content = ''u2''\<rparr>, \<lparr>role = ''assistant'', content = ''a2''\<rparr>]"
  by (simp add: messages_to_send_def spec_messages_to_send_def relevant_messages_def)

lemma relevant_messages_drop: "relevant_messages ms = drop (length ms - 4) ms"
  by (simp add: relevant_messages_def)

text \<open>
  Claim C7, as amended. The sequence sent is the fixed system instruction followed by the
  non-system turns among the last 4 turns of the history; all older turns are dropped and
  at most 4 turns follow the instruction. When none of the last 4 turns is a system turn,
  they are sent as they are, exactly 4 of them when the history has at least 4 turns; and
  when the history holds no system turn at all, the sequence is the one the specification
  words describe.
\<close>

theorem messages_to_send_last_four:
  "messages_to_send ms = system_message # filter (\<lambda>m. role m \<noteq> ''system'') (drop (length ms - 4) ms)
   \<and> length (messages_to_send ms) \<le> 5
   \<and> ((\<forall>m \<in> set (drop (length ms - 4) ms). role m \<noteq> ''system'') \<longrightarrow>
        messages_to_send ms = system_message # drop (length ms - 4) ms
        \<and> (4 \<le> length ms \<longrightarrow> length (messages_to_send ms) = 5))
   \<and> ((\<forall>m \<in> set ms. role m \<noteq> ''system'') \<longrightarrow> messages_to_send ms = spec_messages_to_send ms)"
proof -
  let ?keep = "\<lambda>m. role m \<noteq> ''system''"
  have a: "messages_to_send ms = system_message # filter ?keep (drop (length ms - 4) ms)"
    by (simp add: messages_to_send_def relevant_messages_drop)
  have "length (filter ?keep (drop (length ms - 4) ms)) \<le> length (drop (length ms - 4) ms)"
    by (rule length_filter_le)
  then have b: "length (messages_to_send ms) \<le> 5"
    by (simp add: a)
  have c: "messages_to_send ms = system_message # drop (length ms - 4) ms
        \<and> (4 \<le> length ms \<longrightarrow> length (messages_to_send ms) = 5)"
    if "\<forall>m \<in> set (drop (length ms - 4) ms). role m \<noteq> ''system''"
  proof -
    from that have "filter ?keep (drop (length ms - 4) ms) = drop (length ms - 4) ms"
      by (simp add: filter_id_conv)
    then show ?thesis by (simp add: a)
  qed
  have d: "messages_to_send ms = spec_messages_to_send ms"
    if "\<forall>m \<in> set ms. role m \<noteq> ''system''"
  proof -
    from that have "filter ?keep ms = ms" by (simp add: filter_id_conv)
    moreover from that have "\<forall>m \<in> set (drop (length ms - 4) ms). role m \<noteq> ''system''"
      by (meson in_set_dropD)
    then have "filter ?keep (drop (length ms - 4) ms) = drop (length ms - 4) ms"
      by (simp add: filter_id_conv)
    ultimately show ?thesis by (simp add: a spec_messages_to_send_def)
  qed
  from a b c d show ?thesis by blast
qed

theorem messages_to_send_last_four_witness:
  "messages_to_send
       [\<lparr>role = ''user'', content = ''u1''\<rparr>, \<lparr>role = ''assistant'', content = ''a1''\<rparr>,
        \<lparr>role = ''user'', content = ''u2''\<rparr>, \<lparr>role = ''assistant'', content = ''a2''\<rparr>,
        \<lparr>role = ''user'', content = ''u3''\<rparr>]
     = spec_messages_to_send
       [\<lparr>role = ''user'', content = ''u1''\<rparr>, \<lparr>role = ''assistant'', content = ''a1''\<rparr>,
        \<lparr>role = ''user'', content = ''u2''\<rparr>, \<lparr>role = ''assistant'', content = ''a2''\<rparr>,
        \<lparr>role = ''user'', content = ''u3''\<rparr>]
   \<and> length (messages_to_send
       [\<lparr>role = ''user'', content = ''u1''\<rparr>, \<lparr>role = ''assistant'', content = ''a1''\<rparr>,
        \<lparr>role = ''user'', content = ''u2''\<rparr>, \<lparr>role = ''assistant'', content = ''a2''\<rparr>,
        \<lparr>role = ''user'', content = ''u3''\<rparr>]) = 5"
proof -
  let ?h = "[\<lparr>role = ''user'', content = ''u1''\<rparr>, \<lparr>role = ''assistant'', content = ''a1''\<rparr>,
        \<lparr>role = ''user'', content = ''u2''\<rparr>, \<lparr>role = ''assistant'', content = ''a2''\<rparr>,
        \<lparr>role = ''user'', content = ''u3''\<rparr>]"
  have h1: "\<forall>m \<in> set ?h. role m \<noteq> ''system''" by simp
  have h2: "\<forall>m \<in> set (drop (length ?h - 4) ?h). role m \<noteq> ''system''" by simp
  have h3: "4 \<le> length ?h" by simp
  from messages_to_send_last_four [of ?h] h1 h2 h3 show ?thesis by blast
qed

section \<open>Retry\<close>

text \<open>
  Claim C3. A backend call whose first two attempts fail at the transport level and whose
  third would succeed is expected to return the successful result after exactly 3 attempts.
  The function body catches every \<open>RequestException\<close> and returns \<open>None\<close>, so the retry
  decorator never sees the failure: the call ends after the first attempt, without waiting,
  with the result \<open>None\<close>, one post and one counted call.
\<close>

theorem call_deepseek_two_failures_then_success:
  "call_deepseek (\<lambda>n. if n < 2 then RequestException else Responded 200 [''data: [DONE]''])
     [\<lparr>role = ''user'', content = ''Plan 3 days in Rome''\<rparr>]
     \<lparr>api_calls = 0, last_query_time = None, clock = 0, posted = [], errors_shown = 0\<rparr>
   = (Inr None,
      \<lparr>api_calls = 1, last_query_time = Some 0, clock = 0,
       posted = [[system_message, \<lparr>role = ''user'', content = ''Plan 3 days in Rome''\<rparr>]],
       errors_shown = 1\<rparr>)"
  by (simp add: call_deepseek_def stop_after_attempt_def numeral_3_eq_3 call_deepseek_body_def
      messages_to_send_def relevant_messages_def)

section \<open>Stream decoder\<close>

text \<open>
  Claim C10. For an event line, one that begins with \<open>data: \<close>, whose payload after that
  prefix itself contains \<open>data: \<close>: the decoder compares with the sentinel, and hands to the
  JSON reader, the payload with every further occurrence of \<open>data: \<close> removed, and that text
  differs from the payload, the line with only its leading prefix removed.
\<close>

theorem stream_text_inner_marker:
  assumes "startswith decoded_line ''data: ''"
    and "py_in ''data: '' (drop 6 decoded_line)"
  shows "stream_text content_of (Utf8 decoded_line # rest)
           = (if py_replace ''data: '' '''' (drop 6 decoded_line) = ''[DONE]'' then ([], None)
              else (case content_of (py_replace ''data: '' '''' (drop 6 decoded_line)) of
                      None \<Rightarrow> stream_text content_of rest
                    | Some chunk \<Rightarrow>
                        if chunk \<noteq> []
                        then (chunk # fst (stream_text content_of rest),
                              snd (stream_text content_of rest))
                        else stream_text content_of rest))
       \<and> py_replace ''data: '' '''' (drop 6 decoded_line) \<noteq> drop 6 decoded_line"
proof -
  have len: "length ''data: '' = 6" by simp
  have split: "decoded_line = ''data: '' @ drop 6 decoded_line"
    using startswith_drop [OF assms(1)] by (simp only: len)
  have "py_replace ''data: '' '''' (''data: '' @ drop 6 decoded_line)
          = '''' @ py_replace ''data: '' '''' (drop 6 decoded_line)"
    by (rule py_replace_prefix) simp
  with split have eq: "event_data decoded_line = py_replace ''data: '' '''' (drop 6 decoded_line)"
    by (simp add: event_data_def)
  from split have ne: "decoded_line \<noteq> []" by auto
  have "length (py_replace ''data: '' '''' (drop 6 decoded_line)) < length (drop 6 decoded_line)"
    using assms(2) by (intro length_py_replace_less) simp_all
  then have diff: "py_replace ''data: '' '''' (drop 6 decoded_line) \<noteq> drop 6 decoded_line"
    by auto
  have "stream_text content_of (Utf8 decoded_line # rest)
      = (if event_data decoded_line = ''[DONE]'' then ([], None)
         else (case content_of (event_data decoded_line) of
                 None \<Rightarrow> stream_text content_of rest
               | Some chunk \<Rightarrow>
                   if chunk \<noteq> []
                   then (chunk # fst (stream_text content_of rest), snd (stream_text content_of rest))
                   else stream_text content_of rest))"
    using ne assms(1) by (simp only: stream_text.simps simp_thms if_True)
  with eq diff show ?thesis by (simp only: simp_thms)
qed

theorem stream_text_inner_marker_witness:
  "stream_text (\<lambda>d. if d = ''{\"content\": \"x\"}'' then Some ''x'' else None)
     [Utf8 ''data: {\"content\": \"data: x\"}''] = ([''x''], None)
   \<and> stream_text (\<lambda>d. if d = ''{\"content\": \"data: x\"}'' then Some ''data: x'' else None)
     [Utf8 ''data: {\"content\": \"data: x\"}''] = ([], None)"
proof -
  let ?l = "''data: {\"content\": \"data: x\"}''"
  have h1: "startswith ?l ''data: ''" by code_simp
  have h2: "py_in ''data: '' (drop 6 ?l)" by code_simp
  have v: "py_replace ''data: '' '''' (drop 6 ?l) = ''{\"content\": \"x\"}''" by code_simp
  from stream_text_inner_marker [OF h1 h2, of "\<lambda>d. if d = ''{\"content\": \"x\"}'' then Some ''x'' else None" "[]"]
  have a: "stream_text (\<lambda>d. if d = ''{\"content\": \"x\"}'' then Some ''x'' else None) [Utf8 ?l]
             = ([''x''], None)"
    by (simp add: v)
  from stream_text_inner_marker [OF h1 h2, of "\<lambda>d. if d = ''{\"content\": \"data: x\"}'' then Some ''data: x'' else None" "[]"]
  have b: "stream_text (\<lambda>d. if d = ''{\"content\": \"data: x\"}'' then Some ''data: x'' else None) [Utf8 ?l]
             = ([], None)"
    by (simp add: v)
  from a b show ?thesis by simp
qed

section \<open>Calendar export\<close>

lemma hours_div_day: "(h * us_per_hour) div us_per_day = h div 24"
proof -
  have "us_per_day = 24 * us_per_hour" by (simp add: us_per_day_def us_per_hour_def)
  moreover have "us_per_hour \<noteq> 0" by (simp add: us_per_hour_def)
  then have "(h * us_per_hour) div (24 * us_per_hour) = h div 24" by (rule div_mult_mult2)
  ultimately show ?thesis by simp
qed

lemma timedelta_hours:
  "timedelta d h = (if abs (d + h div 24) > 999999999 then Inl OverflowError
                    else Inr ((d * 24 + h) * us_per_hour))"
proof -
  have "(d * 24 + h) div 24 = d + h div 24" by simp
  then show ?thesis by (simp add: timedelta_def Let_def hours_div_day)
qed

lemma make_event_in_range:
  "in_datetime_range now day_num a \<Longrightarrow>
   make_event (DateTime now) day_num a = Inr (expected_event now day_num a)"
  by (simp add: make_event_def timedelta_hours in_datetime_range_def add_timedelta_def
      expected_event_def Let_def)

lemma day_events_in_range:
  "\<forall>a \<in> set acts. in_datetime_range now day_num a \<Longrightarrow>
   day_events (DateTime now) day_num acts = Inr (map (expected_event now day_num) acts)"
  by (induction acts) (simp_all add: make_event_in_range)

lemma all_events_in_range:
  "\<forall>(day_num, acts) \<in> set items. \<forall>a \<in> set acts. in_datetime_range now day_num a \<Longrightarrow>
   all_events (DateTime now) items
     = Inr (concat (map (\<lambda>(day_num, acts). map (expected_event now day_num) acts) items))"
proof (induction items)
  case Nil
  show ?case by simp
next
  case (Cons item items)
  obtain day_num acts where item: "item = (day_num, acts)" by (cases item)
  from Cons.prems item have "\<forall>a \<in> set acts. in_datetime_range now day_num a" by simp
  then have "day_events (DateTime now) day_num acts = Inr (map (expected_event now day_num) acts)"
    by (rule day_events_in_range)
  moreover from Cons have "all_events (DateTime now) items
     = Inr (concat (map (\<lambda>(day_num, acts). map (expected_event now day_num) acts) items))"
    by simp
  ultimately show ?case by (simp add: item)
qed

lemma make_event_out_of_range:
  "\<not> in_datetime_range now day_num a \<Longrightarrow>
   make_event (DateTime now) day_num a = Inl OverflowError"
  by (auto simp: make_event_def timedelta_hours in_datetime_range_def add_timedelta_def Let_def)

lemma day_events_out_of_range:
  "\<exists>a \<in> set acts. \<not> in_datetime_range now day_num a \<Longrightarrow>
   day_events (DateTime now) day_num acts = Inl OverflowError"
proof (induction acts)
  case Nil
  then show ?case by simp
next
  case (Cons a acts)
  show ?case
  proof (cases "in_datetime_range now day_num a")
    case True
    with Cons.prems have "\<exists>a \<in> set acts. \<not> in_datetime_range now day_num a" by auto
    with Cons.IH have "day_events (DateTime now) day_num acts = Inl OverflowError" by simp
    with True show ?thesis by (simp add: make_event_in_range)
  next
    case False
    then show ?thesis by (simp add: make_event_out_of_range)
  qed
qed

lemma all_events_out_of_range:
  "\<exists>(day_num, acts) \<in> set items. \<exists>a \<in> set acts. \<not> in_datetime_range now day_num a \<Longrightarrow>
   all_events (DateTime now) items = Inl OverflowError"
proof (induction items)
  case Nil
  then show ?case by simp
next
  case (Cons item items)
  obtain day_num acts where item: "item = (day_num, acts)" by (cases item)
  show ?case
  proof (cases "\<forall>a \<in> set acts. in_datetime_range now day_num a")
    case True
    with Cons.prems item
    have "\<exists>(day_num, acts) \<in> set items. \<exists>a \<in> set acts. \<not> in_datetime_range now day_num a"
      by auto
    with Cons.IH have "all_events (DateTime now) items = Inl OverflowError" by simp
    with True show ?thesis by (simp add: item day_events_in_range)
  next
    case False
    then have "day_events (DateTime now) day_num acts = Inl OverflowError"
      by (intro day_events_out_of_range) simp
    then show ?thesis by (simp add: item)
  qed
qed

text \<open>
  Claim C9, as stated, says that with no start date the export still returns one event per
  activity instead of failing. The export does fail, with \<open>OverflowError\<close>, on the itinerary
  that the extractor returns for a heading \<open>## Day 99999999999\<close>: the day offset is beyond
  what \<open>timedelta\<close> holds. The failure comes from the arithmetic, not from the missing start
  date.
\<close>

theorem create_ics_far_day_counterexample:
  "extract_itinerary_data ''## Day 99999999999: Far\<newline>- 9 AM: Walk''
     = Inr \<lparr>destination = None,
            activities =
              [(99999999999, [\<lparr>name = ''Walk'', hour = 9, duration = 2,
                               description = ''Walk'', location = []\<rparr>])]\<rparr>
   \<and> create_ics 63884365200000000
     \<lparr>destination = None,
      activities =
        [(99999999999, [\<lparr>name = ''Walk'', hour = 9, duration = 2,
                         description = ''Walk'', location = []\<rparr>])],
      start_date = None\<rparr>
   = Inl OverflowError"
proof -
  have "extract_itinerary_data ''## Day 99999999999: Far\<newline>- 9 AM: Walk''
     = Inr \<lparr>destination = None,
            activities =
              [(99999999999, [\<lparr>name = ''Walk'', hour = 9, duration = 2,
                               description = ''Walk'', location = []\<rparr>])]\<rparr>"
    by code_simp
  moreover have "create_ics 63884365200000000
     \<lparr>destination = None,
      activities =
        [(99999999999, [\<lparr>name = ''Walk'', hour = 9, duration = 2,
                         description = ''Walk'', location = []\<rparr>])],
      start_date = None\<rparr>
   = Inl OverflowError"
    by (simp add: create_ics_def make_event_def timedelta_def us_per_hour_def us_per_day_def Let_def)
  ultimately show ?thesis by (rule conjI)
qed

text \<open>
  Claim C9, as amended. The calendar export itself does not ask for a start date: when
  \<open>start_date\<close> is unset, the reading of the clock is the base, and the export does exactly
  what it does with that reading set as start date. It returns one event per activity, in
  order, the event of an activity of day \<open>d\<close> beginning at the base plus \<open>d - 1\<close> days plus
  the activity's hour in hours, when every event time stays within the range of
  \<open>timedelta\<close> and \<open>datetime\<close>; otherwise it fails with \<open>OverflowError\<close>.
\<close>

theorem create_ics_unset_start_date:
  assumes "start_date itinerary_data = None"
  shows "create_ics now itinerary_data
           = create_ics now (itinerary_data\<lparr>start_date := Some (DateTime now)\<rparr>)
       \<and> create_ics now itinerary_data
           = (if \<forall>(day_num, acts) \<in> set (activities itinerary_data).
                   \<forall>a \<in> set acts. in_datetime_range now day_num a
              then Inr (concat (map (\<lambda>(day_num, acts). map (expected_event now day_num) acts)
                         (activities itinerary_data)))
              else Inl OverflowError)"
proof -
  have same: "create_ics now itinerary_data
           = create_ics now (itinerary_data\<lparr>start_date := Some (DateTime now)\<rparr>)"
    using assms by (simp add: create_ics_def)
  have run: "create_ics now itinerary_data = all_events (DateTime now) (activities itinerary_data)"
    using assms by (simp add: create_ics_def)
  show ?thesis
  proof (cases "\<forall>(day_num, acts) \<in> set (activities itinerary_data).
                   \<forall>a \<in> set acts. in_datetime_range now day_num a")
    case True
    then have "all_events (DateTime now) (activities itinerary_data)
        = Inr (concat (map (\<lambda>(day_num, acts). map (expected_event now day_num) acts)
                         (activities itinerary_data)))"
      by (rule all_events_in_range)
    with run have "create_ics now itinerary_data
        = Inr (concat (map (\<lambda>(day_num, acts). map (expected_event now day_num) acts)
                         (activities itinerary_data)))"
      by (simp only:)
    also from True have "\<dots> = (if \<forall>(day_num, acts) \<in> set (activities itinerary_data).
                   \<forall>a \<in> set acts. in_datetime_range now day_num a
              then Inr (concat (map (\<lambda>(day_num, acts). map (expected_event now day_num) acts)
                         (activities itinerary_data)))
              else Inl OverflowError)"
      by (rule if_P [symmetric])
    finally show ?thesis using same by (intro conjI)
  next
    case False
    then have "\<exists>(day_num, acts) \<in> set (activities itinerary_data).
        \<exists>a \<in> set acts. \<not> in_datetime_range now day_num a"
      by auto
    then have "all_events (DateTime now) (activities itinerary_data) = Inl OverflowError"
      by (rule all_events_out_of_range)
    with run have "create_ics now itinerary_data = Inl OverflowError"
      by (simp only:)
    also from False have "\<dots> = (if \<forall>(day_num, acts) \<in> set (activities itinerary_data).
                   \<forall>a \<in> set acts. in_datetime_range now day_num a
              then Inr (concat (map (\<lambda>(day_num, acts). map (expected_event now day_num) acts)
                         (activities itinerary_data)))
              else Inl OverflowError)"
      by (rule if_not_P [symmetric])
    finally show ?thesis using same by (intro conjI)
  qed
qed

theorem create_ics_unset_start_date_witness:
  "create_ics 63884365200000000
     \<lparr>destination = Some ''Paris'',
      activities =
        [(1, [\<lparr>name = ''Visit Eiffel Tower'', hour = 9, duration = 2,
               description = ''Visit Eiffel Tower'', location = ''Paris''\<rparr>]),
         (2, [\<lparr>name = ''Louvre Museum'', hour = 10, duration = 2,
               description = ''Louvre Museum'', location = ''Paris''\<rparr>])],
      start_date = None\<rparr>
   = Inr [\<lparr>ev_name = ''Visit Eiffel Tower'', ev_begin = DateTime 63884397600000000,
           ev_duration = 7200000000, ev_description = ''Visit Eiffel Tower'',
           ev_location = ''Paris''\<rparr>,
          \<lparr>ev_name = ''Louvre Museum'', ev_begin = DateTime 63884487600000000,
           ev_duration = 7200000000, ev_description = ''Louvre Museum'',
           ev_location = ''Paris''\<rparr>]"
proof -
  let ?d = "\<lparr>destination = Some ''Paris'',
      activities =
        [(1, [\<lparr>name = ''Visit Eiffel Tower'', hour = 9, duration = 2,
               description = ''Visit Eiffel Tower'', location = ''Paris''\<rparr>]),
         (2, [\<lparr>name = ''Louvre Museum'', hour = 10, duration = 2,
               description = ''Louvre Museum'', location = ''Paris''\<rparr>])],
      start_date = None\<rparr>"
  have h1: "start_date ?d = None" by simp
  have h2: "\<forall>(day_num, acts) \<in> set (activities ?d).
           \<forall>a \<in> set acts. in_datetime_range 63884365200000000 day_num a"
    by (simp add: in_datetime_range_def us_per_hour_def us_per_day_def MAXORDINAL_def)
  note create_ics_unset_start_date [OF h1, of 63884365200000000, THEN conjunct2]
  also from h2 have "(if \<forall>(day_num, acts) \<in> set (activities ?d).
           \<forall>a \<in> set acts. in_datetime_range 63884365200000000 day_num a
        then Inr (concat (map (\<lambda>(day_num, acts). map (expected_event 63884365200000000 day_num) acts)
                         (activities ?d)))
        else Inl OverflowError)
      = Inr (concat (map (\<lambda>(day_num, acts). map (expected_event 63884365200000000 day_num) acts)
                         (activities ?d)))"
    by (rule if_P)
  finally have "create_ics 63884365200000000 ?d
          = Inr (concat (map (\<lambda>(day_num, acts). map (expected_event 63884365200000000 day_num) acts)
                         (activities ?d)))" .
  then show ?thesis
    by (simp add: expected_event_def us_per_hour_def)
qed

end
